theory Spec2Isabelle
  imports Main
begin

section \<open>The plugin wrapper of \<open>include/hirzel/plugin.h\<close>\<close>

text \<open>
  \<open>hirzel::Plugin\<close> wraps the dynamic loader of the operating system: it opens a shared
  object, looks symbols up in it, keeps the addresses in a map and calls them after a cast.
  The model follows the POSIX branch of the header (\<open>dlopen\<close>, \<open>dlsym\<close>, \<open>dlerror\<close>).
\<close>

subsection \<open>Pointers and the loader of the operating system\<close>

text \<open>
  A pointer (\<open>void*\<close>, \<open>Function\<close>) is a natural number, the null pointer is \<open>0\<close>. The only
  thing the class ever does with a pointer is to test it against null, store it, and call
  through it.
\<close>

type_synonym ptr = nat

text \<open>
  The loader is a parameter of every operation that asks it something. \<open>dlopen os path\<close> is
  the handle \<open>dlopen(path, RTLD_NOW)\<close> returns (null when the file cannot be mapped),
  \<open>dlsym os h name\<close> the address \<open>dlsym(h, name)\<close> returns (null when the image has no such
  symbol). \<open>dlerror()\<close> has no argument in C: it reports the most recent failure. The class
  calls it right after a failed \<open>dlopen\<close> or a failed \<open>dlsym\<close>, so the model has one field for
  each of the two places, taking the arguments of the call that failed. The result is a
  \<open>const char*\<close>, which may be null: \<open>string option\<close>.
\<close>

record loader =
  dlopen :: "string \<Rightarrow> ptr"
  dlerror_open :: "string \<Rightarrow> string option"
  dlsym :: "ptr \<Rightarrow> string \<Rightarrow> ptr"
  dlerror_sym :: "ptr \<Rightarrow> string \<Rightarrow> string option"

subsection \<open>The data members\<close>

text \<open>
  The private members \<open>_lib\<close>, \<open>_bound\<close>, \<open>_error\<close>, \<open>_filepath\<close> and \<open>_functions\<close>. The
  \<open>std::unordered_map<std::string, Function>\<close> is a partial map from names to pointers; a
  key can be present with a null pointer as its value.

  \<open>_error\<close> is a \<open>const char*\<close> that the class never copies. \<open>m_error\<close> is \<open>None\<close> for the
  null pointer and otherwise the text the pointer referred to when it was assigned. For one
  of the string literals of the class that text stays. For a pointer that \<open>dlerror\<close> returned
  the loader keeps the text only until its next call, so \<open>m_error\<close> is what \<open>error()\<close> reads
  only as long as no \<open>dlopen\<close> or \<open>dlsym\<close> has run since the assignment. The properties
  below state the text of the error slot only where it is null, a literal of the class, or
  the diagnostic of the loader call that ran last.
\<close>

record plugin =
  m_lib :: ptr
  m_bound :: bool
  m_error :: "string option"
  m_filepath :: string
  m_functions :: "string \<rightharpoonup> ptr"

text \<open>\<open>Plugin() = default\<close>: every member has its default initialiser.\<close>

definition new_plugin :: plugin where
  "new_plugin =
     \<lparr>m_lib = 0, m_bound = False, m_error = None, m_filepath = [], m_functions = Map.empty\<rparr>"

subsection \<open>The const accessors\<close>

definition is_lib_bound :: "plugin \<Rightarrow> bool" where
  "is_lib_bound s = (m_lib s \<noteq> 0)"

definition is_func_bound :: "string \<Rightarrow> plugin \<Rightarrow> bool" where
  "is_func_bound funcname s = (m_functions s funcname \<noteq> None)"

definition bound :: "plugin \<Rightarrow> bool" where
  "bound s = m_bound s"

definition filepath :: "plugin \<Rightarrow> string" where
  "filepath s = m_filepath s"

definition error :: "plugin \<Rightarrow> string option" where
  "error s = m_error s"

subsection \<open>Binding the library and its functions\<close>

definition bind_library :: "loader \<Rightarrow> string \<Rightarrow> plugin \<Rightarrow> plugin" where
  "bind_library os path s =
     (if m_lib s \<noteq> 0
      then s\<lparr>m_error := Some ''a library is already bound! overwriting is not allowed.''\<rparr>
      else
        let s1 = s\<lparr>m_filepath := path\<rparr>;
            s2 = s1\<lparr>m_lib := dlopen os (m_filepath s1)\<rparr>
        in if m_lib s2 = 0
           then s2\<lparr>m_error := dlerror_open os (m_filepath s1), m_bound := False\<rparr>
           else s2\<lparr>m_bound := True\<rparr>)"

text \<open>\<open>bind_function\<close> returns the pointer it found (null on both failures) and the new state.\<close>

definition bind_function :: "loader \<Rightarrow> string \<Rightarrow> plugin \<Rightarrow> ptr \<times> plugin" where
  "bind_function os funcname s =
     (if m_lib s = 0
      then (0, s\<lparr>m_error :=
                   Some ''lib has not been bound! cannot continue with binding function!''\<rparr>)
      else
        let func = dlsym os (m_lib s) funcname
        in if func = 0
           then (0, s\<lparr>m_error := dlerror_sym os (m_lib s) funcname, m_bound := False\<rparr>)
           else (func, s\<lparr>m_functions := (m_functions s)(funcname \<mapsto> func)\<rparr>))"

text \<open>
  The constructor with a path and a list of names binds the library and then, when a handle
  is held, runs \<open>bind_function\<close> over the names in order; \<open>bind_functions\<close> is that loop.
\<close>

fun bind_functions :: "loader \<Rightarrow> string list \<Rightarrow> plugin \<Rightarrow> plugin" where
  "bind_functions os [] s = s"
| "bind_functions os (n # ns) s = bind_functions os ns (snd (bind_function os n s))"

definition Plugin :: "loader \<Rightarrow> string \<Rightarrow> string list \<Rightarrow> plugin" where
  "Plugin os path funcnames =
     (let s = bind_library os path new_plugin
      in if m_lib s \<noteq> 0 then bind_functions os funcnames s else s)"

subsection \<open>Reading the map and calling through it\<close>

text \<open>
  \<open>_functions[funcname]\<close> is \<open>std::unordered_map::operator[]\<close>: when the key is absent it
  inserts it with a value-initialised pointer, that is null, and returns that.
\<close>

definition subscript :: "string \<Rightarrow> plugin \<Rightarrow> ptr \<times> plugin" where
  "subscript funcname s =
     (case m_functions s funcname of
        Some func \<Rightarrow> (func, s)
      | None \<Rightarrow> (0, s\<lparr>m_functions := (m_functions s)(funcname \<mapsto> 0)\<rparr>))"

definition get_func :: "string \<Rightarrow> plugin \<Rightarrow> ptr \<times> plugin" where
  "get_func funcname s = subscript funcname s"

text \<open>
  \<open>execute<T, Args...>\<close> casts the stored pointer and calls it. The signature is the pair
  of types \<open>'a\<close> (the argument pack) and \<open>'r\<close> (the return type); \<open>call func args\<close> is what
  the foreign function at address \<open>func\<close> returns on \<open>args\<close>, and \<open>dflt\<close> is \<open>T()\<close>. The
  result records which branch returned: \<open>Not_called\<close> carries \<open>T()\<close>, \<open>Called\<close> carries the
  address that was called through and what the call returned.
\<close>

datatype 'r outcome = Not_called 'r | Called ptr 'r

definition execute ::
  "(ptr \<Rightarrow> 'a \<Rightarrow> 'r) \<Rightarrow> 'r \<Rightarrow> string \<Rightarrow> 'a \<Rightarrow> plugin \<Rightarrow> 'r outcome \<times> plugin" where
  "execute call dflt funcname args s =
     (let (func, s1) = subscript funcname s
      in if func = 0
         then (Not_called dflt,
               s1\<lparr>m_error := Some ''attempted to execute function that is not bound!''\<rparr>)
         else (Called func (call func args), s1))"

subsection \<open>Sequences of operations on one handle\<close>

text \<open>
  The operations that change a handle, and a run of them. Each step of a run comes with the
  loader as it is at that moment, so the file system and the image may change between two
  calls. A step of \<open>Execute\<close> keeps the state \<open>execute\<close> leaves, which does not depend on the
  signature.
\<close>

datatype operation =
  Bind_library string | Bind_function string | Execute string | Get_func string

fun step :: "loader \<Rightarrow> operation \<Rightarrow> plugin \<Rightarrow> plugin" where
  "step os (Bind_library path) s = bind_library os path s"
| "step os (Bind_function funcname) s = snd (bind_function os funcname s)"
| "step os (Execute funcname) s = snd (execute (\<lambda>_ _. ()) () funcname () s)"
| "step os (Get_func funcname) s = snd (get_func funcname s)"

fun run :: "(loader \<times> operation) list \<Rightarrow> plugin \<Rightarrow> plugin" where
  "run [] s = s"
| "run ((os, opn) # tr) s = run tr (step os opn s)"

text \<open>
  \<open>resolved_in name tr s\<close>: some step of the run \<open>tr\<close> from \<open>s\<close> is a \<open>bind_function\<close> of
  \<open>name\<close> that returned a pointer other than null.
\<close>

fun resolved_in :: "string \<Rightarrow> (loader \<times> operation) list \<Rightarrow> plugin \<Rightarrow> bool" where
  "resolved_in name [] s = False"
| "resolved_in name ((os, opn) # tr) s =
     ((opn = Bind_function name \<and> fst (bind_function os name s) \<noteq> 0)
      \<or> resolved_in name tr (step os opn s))"

text \<open>\<open>opens (os, opn)\<close>: the step is a \<open>bind_library\<close> of a path the loader can map.\<close>

fun opens :: "loader \<times> operation \<Rightarrow> bool" where
  "opens (os, Bind_library path) = (dlopen os path \<noteq> 0)"
| "opens (os, _) = False"

subsection \<open>A loader for the examples\<close>

text \<open>
  One image, \<open>libexample.so\<close>, mapped at handle \<open>1\<close>, exporting the single symbol \<open>add\<close> at
  address \<open>7\<close>; the diagnostics name what was asked for.
\<close>

definition example_os :: loader where
  "example_os =
     \<lparr>dlopen = (\<lambda>path. if path = ''libexample.so'' then 1 else 0),
      dlerror_open = (\<lambda>path. Some (path @ '': cannot open shared object file'')),
      dlsym = (\<lambda>h name. if h = 1 \<and> name = ''add'' then 7 else 0),
      dlerror_sym = (\<lambda>h name. Some (''undefined symbol: '' @ name))\<rparr>"

section \<open>Properties\<close>

subsection \<open>Loading twice\<close>

text \<open>
  C3. On a handle that already holds a library, \<open>bind_library\<close> only writes the
  already-bound message into the error slot: the handle, the recorded path, the map of
  functions and \<open>bound\<close> are what they were before the call.
\<close>

theorem bind_library_twice_rejected:
  assumes "is_lib_bound s"
  shows "error (bind_library os path s) =
           Some ''a library is already bound! overwriting is not allowed.''
       \<and> m_lib (bind_library os path s) = m_lib s
       \<and> filepath (bind_library os path s) = filepath s
       \<and> m_functions (bind_library os path s) = m_functions s
       \<and> bound (bind_library os path s) = bound s
       \<and> bind_library os path s = s\<lparr>m_error := error (bind_library os path s)\<rparr>"
  using assms
  by (simp add: bind_library_def is_lib_bound_def error_def filepath_def bound_def)

theorem bind_library_twice_rejected_witness:
  "is_lib_bound (Plugin example_os ''libexample.so'' [''add''])
   \<and> error (bind_library example_os ''other.so'' (Plugin example_os ''libexample.so'' [''add'']))
       = Some ''a library is already bound! overwriting is not allowed.''
   \<and> m_lib (bind_library example_os ''other.so'' (Plugin example_os ''libexample.so'' [''add'']))
       = 1
   \<and> filepath (bind_library example_os ''other.so'' (Plugin example_os ''libexample.so'' [''add'']))
       = ''libexample.so''
   \<and> m_functions (bind_library example_os ''other.so''
         (Plugin example_os ''libexample.so'' [''add''])) ''add'' = Some 7
   \<and> bound (bind_library example_os ''other.so'' (Plugin example_os ''libexample.so'' [''add'']))"
proof -
  have loaded: "is_lib_bound (Plugin example_os ''libexample.so'' [''add''])"
    by (simp add: Plugin_def bind_library_def bind_function_def new_plugin_def example_os_def
        is_lib_bound_def)
  have before: "m_lib (Plugin example_os ''libexample.so'' [''add'']) = 1
      \<and> filepath (Plugin example_os ''libexample.so'' [''add'']) = ''libexample.so''
      \<and> m_functions (Plugin example_os ''libexample.so'' [''add'']) ''add'' = Some 7
      \<and> bound (Plugin example_os ''libexample.so'' [''add''])"
    by (simp add: Plugin_def bind_library_def bind_function_def new_plugin_def example_os_def
        filepath_def bound_def)
  from bind_library_twice_rejected [OF loaded, of example_os "''other.so''"] before loaded
  show ?thesis by simp
qed


subsection \<open>Resolving a symbol the image does not export\<close>

text \<open>
  C4. On a loaded handle, when \<open>dlsym\<close> finds no symbol of that name, \<open>bind_function\<close>
  returns null, \<open>bound\<close> is false afterwards, the error slot holds what \<open>dlerror\<close> reports,
  and the map of functions is untouched: the failing name is not added, and every name that
  was in the map is still in it.
\<close>

theorem bind_function_missing_symbol:
  assumes "is_lib_bound s" and "dlsym os (m_lib s) name = 0"
  shows "fst (bind_function os name s) = 0
       \<and> \<not> bound (snd (bind_function os name s))
       \<and> error (snd (bind_function os name s)) = dlerror_sym os (m_lib s) name
       \<and> m_functions (snd (bind_function os name s)) = m_functions s
       \<and> is_func_bound name (snd (bind_function os name s)) = is_func_bound name s
       \<and> (\<forall>other. is_func_bound other s \<longrightarrow> is_func_bound other (snd (bind_function os name s)))
       \<and> is_lib_bound (snd (bind_function os name s))"
  using assms
  by (simp add: bind_function_def is_lib_bound_def is_func_bound_def bound_def error_def)

theorem bind_function_missing_symbol_witness:
  "is_lib_bound (Plugin example_os ''libexample.so'' [''add''])
   \<and> dlsym example_os (m_lib (Plugin example_os ''libexample.so'' [''add''])) ''missing_fn'' = 0
   \<and> bound (Plugin example_os ''libexample.so'' [''add''])
   \<and> is_func_bound ''add'' (Plugin example_os ''libexample.so'' [''add''])
   \<and> fst (bind_function example_os ''missing_fn''
            (Plugin example_os ''libexample.so'' [''add''])) = 0
   \<and> \<not> bound (snd (bind_function example_os ''missing_fn''
                  (Plugin example_os ''libexample.so'' [''add''])))
   \<and> \<not> is_func_bound ''missing_fn'' (snd (bind_function example_os ''missing_fn''
                  (Plugin example_os ''libexample.so'' [''add''])))
   \<and> is_func_bound ''add'' (snd (bind_function example_os ''missing_fn''
                  (Plugin example_os ''libexample.so'' [''add''])))"
proof -
  let ?s = "Plugin example_os ''libexample.so'' [''add'']"
  have loaded: "is_lib_bound ?s"
    by (simp add: Plugin_def bind_library_def bind_function_def new_plugin_def example_os_def
        is_lib_bound_def)
  have missing: "dlsym example_os (m_lib ?s) ''missing_fn'' = 0"
    by (simp add: example_os_def)
  have before: "bound ?s \<and> is_func_bound ''add'' ?s \<and> \<not> is_func_bound ''missing_fn'' ?s"
    by (simp add: Plugin_def bind_library_def bind_function_def new_plugin_def example_os_def
        bound_def is_func_bound_def)
  from bind_function_missing_symbol [OF loaded missing] before loaded missing
  show ?thesis by simp
qed

subsection \<open>Resolving an exported symbol, twice\<close>

text \<open>
  C7. On a loaded handle, when \<open>dlsym\<close> finds the symbol, \<open>bind_function\<close> returns its
  address and the name is in the map afterwards. A second \<open>bind_function\<close> of the same name,
  with a loader \<open>os'\<close> that may differ from the first but still gives the symbol the same
  address, returns the same address and leaves the handle, the map, the recorded path and
  \<open>bound\<close> as the first call left them, the cached entry being that address. Neither call
  assigns the error slot: when it was null before, it is null after both.
\<close>

theorem bind_function_idempotent:
  assumes "is_lib_bound s"
    and "dlsym os (m_lib s) name \<noteq> 0"
    and "dlsym os' (m_lib s) name = dlsym os (m_lib s) name"
  shows "fst (bind_function os name s) = dlsym os (m_lib s) name
       \<and> fst (bind_function os name s) \<noteq> 0
       \<and> is_func_bound name (snd (bind_function os name s))
       \<and> bound (snd (bind_function os name s)) = bound s
       \<and> fst (bind_function os' name (snd (bind_function os name s)))
           = fst (bind_function os name s)
       \<and> m_functions (snd (bind_function os' name (snd (bind_function os name s)))) name
           = Some (fst (bind_function os name s))
       \<and> m_functions (snd (bind_function os' name (snd (bind_function os name s))))
           = m_functions (snd (bind_function os name s))
       \<and> m_lib (snd (bind_function os' name (snd (bind_function os name s))))
           = m_lib (snd (bind_function os name s))
       \<and> bound (snd (bind_function os' name (snd (bind_function os name s))))
           = bound (snd (bind_function os name s))
       \<and> filepath (snd (bind_function os' name (snd (bind_function os name s))))
           = filepath (snd (bind_function os name s))
       \<and> (error s = None \<longrightarrow>
            error (snd (bind_function os name s)) = None
          \<and> error (snd (bind_function os' name (snd (bind_function os name s)))) = None)"
  using assms
  by (simp add: bind_function_def is_lib_bound_def is_func_bound_def bound_def filepath_def
      error_def Let_def)

theorem bind_function_idempotent_witness:
  "is_lib_bound (Plugin example_os ''libexample.so'' [])
   \<and> dlsym example_os (m_lib (Plugin example_os ''libexample.so'' [])) ''add'' \<noteq> 0
   \<and> error (Plugin example_os ''libexample.so'' []) = None
   \<and> fst (bind_function example_os ''add'' (Plugin example_os ''libexample.so'' [])) = 7
   \<and> is_func_bound ''add''
        (snd (bind_function example_os ''add'' (Plugin example_os ''libexample.so'' [])))
   \<and> fst (bind_function example_os ''add''
        (snd (bind_function example_os ''add'' (Plugin example_os ''libexample.so'' [])))) = 7
   \<and> error (snd (bind_function example_os ''add''
        (snd (bind_function example_os ''add'' (Plugin example_os ''libexample.so'' []))))) = None
   \<and> m_functions (snd (bind_function example_os ''add''
        (snd (bind_function example_os ''add'' (Plugin example_os ''libexample.so'' [])))))
        ''add'' = Some 7"
proof -
  let ?s = "Plugin example_os ''libexample.so'' []"
  have loaded: "is_lib_bound ?s"
    by (simp add: Plugin_def bind_library_def new_plugin_def example_os_def is_lib_bound_def)
  have exported: "dlsym example_os (m_lib ?s) ''add'' \<noteq> 0"
    by (simp add: Plugin_def bind_library_def new_plugin_def example_os_def)
  have stable: "dlsym example_os (m_lib ?s) ''add'' = dlsym example_os (m_lib ?s) ''add''"
    by (rule refl)
  have vals: "dlsym example_os (m_lib ?s) ''add'' = 7" and empty: "error ?s = None"
    by (simp_all add: Plugin_def bind_library_def new_plugin_def example_os_def error_def)
  from bind_function_idempotent [OF loaded exported stable] vals empty loaded exported
  show ?thesis by auto
qed

subsection \<open>Reading an absent name inserts it\<close>

text \<open>
  C8. For a name that is not in the map, \<open>get_func\<close> and \<open>execute\<close> go through
  \<open>operator[]\<close>, which inserts the name with a null pointer: \<open>is_func_bound\<close> is true for
  it afterwards, though no \<open>bind_function\<close> ever resolved it.
\<close>

theorem subscript_inserts_null:
  assumes "\<not> is_func_bound name s"
  shows "fst (get_func name s) = 0
       \<and> m_functions (snd (get_func name s)) name = Some 0
       \<and> is_func_bound name (snd (get_func name s))
       \<and> m_functions (snd (execute call dflt name args s)) name = Some 0
       \<and> is_func_bound name (snd (execute call dflt name args s))"
  using assms
  by (simp add: get_func_def execute_def subscript_def is_func_bound_def)

theorem subscript_inserts_null_witness:
  "\<not> is_func_bound ''add'' new_plugin
   \<and> fst (get_func ''add'' new_plugin) = 0
   \<and> m_functions (snd (get_func ''add'' new_plugin)) ''add'' = Some 0
   \<and> is_func_bound ''add'' (snd (get_func ''add'' new_plugin))
   \<and> m_functions (snd (execute (\<lambda>f (x::int). x + 1) 0 ''add'' 41 new_plugin)) ''add'' = Some 0
   \<and> is_func_bound ''add'' (snd (execute (\<lambda>f (x::int). x + 1) 0 ''add'' 41 new_plugin))"
proof -
  have absent: "\<not> is_func_bound ''add'' new_plugin"
    by (simp add: is_func_bound_def new_plugin_def)
  from subscript_inserts_null [OF absent, of "\<lambda>f (x::int). x + 1" 0 41] absent
  show ?thesis by simp
qed

subsection \<open>The recorded path\<close>

text \<open>
  C10. On a handle that holds no library, \<open>bind_library\<close> assigns the path to \<open>_filepath\<close>
  first and hands that member to \<open>dlopen\<close>: \<open>filepath\<close> returns the attempted path
  afterwards, whether the loader mapped the file or not, and the handle is whatever
  \<open>dlopen\<close> returned for it, so \<open>is_lib_bound\<close> stays false when the load failed.
\<close>

theorem bind_library_records_path:
  assumes "\<not> is_lib_bound s"
  shows "filepath (bind_library os path s) = path
       \<and> m_lib (bind_library os path s) = dlopen os path
       \<and> is_lib_bound (bind_library os path s) = (dlopen os path \<noteq> 0)"
  using assms
  by (simp add: bind_library_def is_lib_bound_def filepath_def Let_def)

theorem bind_library_records_path_witness:
  "\<not> is_lib_bound new_plugin
   \<and> filepath (bind_library example_os ''nosuch.so'' new_plugin) = ''nosuch.so''
   \<and> \<not> is_lib_bound (bind_library example_os ''nosuch.so'' new_plugin)"
proof -
  have unloaded: "\<not> is_lib_bound new_plugin"
    by (simp add: is_lib_bound_def new_plugin_def)
  have fails: "dlopen example_os ''nosuch.so'' = 0"
    by (simp add: example_os_def)
  from bind_library_records_path [OF unloaded, of example_os "''nosuch.so''"] unloaded fails
  show ?thesis by simp
qed


subsection \<open>What a step does to the handle and to \<open>bound\<close>\<close>

text \<open>
  Only \<open>bind_library\<close> writes \<open>_lib\<close>, and only while it is null; only \<open>bind_library\<close>
  writes \<open>true\<close> into \<open>_bound\<close>, and only in that same branch.
\<close>

lemma bind_function_lib: "m_lib (snd (bind_function os n s)) = m_lib s"
  by (simp add: bind_function_def Let_def)

lemma subscript_lib: "m_lib (snd (subscript n s)) = m_lib s"
  by (simp add: subscript_def split: option.split)

lemma subscript_bound: "m_bound (snd (subscript n s)) = m_bound s"
  by (simp add: subscript_def split: option.split)

lemma execute_lib: "m_lib (snd (execute call dflt n args s)) = m_lib s"
  using subscript_lib [of n s]
  by (simp add: execute_def split_beta Let_def)

lemma execute_bound: "m_bound (snd (execute call dflt n args s)) = m_bound s"
  using subscript_bound [of n s]
  by (simp add: execute_def split_beta Let_def)

lemma step_lib_held: "m_lib s \<noteq> 0 \<Longrightarrow> m_lib (step os opn s) = m_lib s"
  by (cases opn)
    (simp_all add: bind_library_def bind_function_lib execute_lib get_func_def subscript_lib)

lemma step_lib_none: "m_lib s = 0 \<Longrightarrow> (m_lib (step os opn s) \<noteq> 0) = opens (os, opn)"
  by (cases opn)
    (simp_all add: bind_library_def bind_function_lib execute_lib get_func_def subscript_lib
      Let_def)

lemma step_bound_stays_false:
  "m_lib s \<noteq> 0 \<Longrightarrow> \<not> m_bound s \<Longrightarrow> \<not> m_bound (step os opn s)"
  by (cases opn)
    (simp_all add: bind_library_def bind_function_def execute_bound get_func_def
      subscript_bound Let_def)

lemma run_lib_held: "m_lib s \<noteq> 0 \<Longrightarrow> m_lib (run tr s) = m_lib s"
proof (induction tr arbitrary: s)
  case Nil
  show ?case by simp
next
  case (Cons x tr)
  obtain os opn where x: "x = (os, opn)" by (cases x)
  from Cons.prems have "m_lib (step os opn s) = m_lib s" by (rule step_lib_held)
  with Cons.prems Cons.IH [of "step os opn s"] x show ?case by simp
qed

lemma run_bound_stays_false:
  "m_lib s \<noteq> 0 \<Longrightarrow> \<not> m_bound s \<Longrightarrow> \<not> m_bound (run tr s)"
proof (induction tr arbitrary: s)
  case Nil
  then show ?case by simp
next
  case (Cons x tr)
  obtain os opn where x: "x = (os, opn)" by (cases x)
  from Cons.prems have held: "m_lib (step os opn s) \<noteq> 0" by (simp add: step_lib_held)
  from Cons.prems have "\<not> m_bound (step os opn s)" by (rule step_bound_stays_false)
  with held Cons.IH [of "step os opn s"] x show ?case by simp
qed

lemma run_lib_none: "m_lib s = 0 \<Longrightarrow> (m_lib (run tr s) \<noteq> 0) = list_ex opens tr"
proof (induction tr arbitrary: s)
  case Nil
  then show ?case by simp
next
  case (Cons x tr)
  obtain os opn where x: "x = (os, opn)" by (cases x)
  show ?case
  proof (cases "opens (os, opn)")
    case True
    with Cons.prems have held: "m_lib (step os opn s) \<noteq> 0"
      using step_lib_none [of s os opn] by simp
    then have "m_lib (run tr (step os opn s)) \<noteq> 0" by (simp add: run_lib_held)
    with True x show ?thesis by simp
  next
    case False
    with Cons.prems have "m_lib (step os opn s) = 0"
      using step_lib_none [of s os opn] by simp
    with False Cons.IH [of "step os opn s"] x show ?thesis by simp
  qed
qed

subsection \<open>\<open>bound\<close> after a failed resolution\<close>

text \<open>
  C9. After a \<open>bind_function\<close> that failed on a loaded handle \<open>bound\<close> is false, and it is
  false after every run of operations that follows, whatever the loader answers: the handle
  is held for good, so \<open>bind_library\<close> always takes its early return, and no other
  operation assigns \<open>true\<close>. In particular \<open>bind_function\<close> never sets it: when \<open>bound\<close> is
  true after a \<open>bind_function\<close>, it was true before.
\<close>

theorem bound_never_returns:
  assumes "is_lib_bound s0" and "dlsym os (m_lib s0) name = 0"
  shows "\<not> bound (snd (bind_function os name s0))
       \<and> \<not> bound (run tr (snd (bind_function os name s0)))
       \<and> (bound (snd (bind_function os' name' s')) \<longrightarrow> bound s')"
proof -
  let ?s = "snd (bind_function os name s0)"
  from assms have held: "m_lib ?s \<noteq> 0" and unbound: "\<not> m_bound ?s"
    by (simp_all add: bind_function_def is_lib_bound_def)
  from held unbound have "\<not> m_bound (run tr ?s)" by (rule run_bound_stays_false)
  moreover have "m_bound (snd (bind_function os' name' s')) \<longrightarrow> m_bound s'"
    by (simp add: bind_function_def Let_def)
  ultimately show ?thesis using unbound by (simp add: bound_def)
qed

theorem bound_never_returns_witness:
  "is_lib_bound (Plugin example_os ''libexample.so'' [])
   \<and> dlsym example_os (m_lib (Plugin example_os ''libexample.so'' [])) ''missing_fn'' = 0
   \<and> bound (Plugin example_os ''libexample.so'' [])
   \<and> \<not> bound (run [(example_os, Bind_function ''add''),
                    (example_os, Bind_library ''libexample.so''),
                    (example_os, Execute ''add''),
                    (example_os, Get_func ''add'')]
          (snd (bind_function example_os ''missing_fn''
                  (Plugin example_os ''libexample.so'' []))))
   \<and> bound (snd (bind_function example_os ''add'' (Plugin example_os ''libexample.so'' [])))"
proof -
  let ?s = "Plugin example_os ''libexample.so'' []"
  have loaded: "is_lib_bound ?s"
    by (simp add: Plugin_def bind_library_def new_plugin_def example_os_def is_lib_bound_def)
  have missing: "dlsym example_os (m_lib ?s) ''missing_fn'' = 0"
    by (simp add: example_os_def)
  have before: "bound ?s"
    by (simp add: Plugin_def bind_library_def new_plugin_def example_os_def bound_def)
  have after: "bound (snd (bind_function example_os ''add'' ?s))"
    by (simp add: Plugin_def bind_library_def bind_function_def new_plugin_def example_os_def
        bound_def)
  from bound_never_returns [OF loaded missing,
      where tr = "[(example_os, Bind_function ''add''),
                   (example_os, Bind_library ''libexample.so''),
                   (example_os, Execute ''add''),
                   (example_os, Get_func ''add'')]"
        and os' = example_os and name' = "''add''" and s' = ?s]
    loaded missing before after
  show ?thesis by blast
qed

subsection \<open>Executing a name that was never resolved\<close>

text \<open>
  An entry of the map that is absent or null stays absent or null through every step that
  is not a successful \<open>bind_function\<close> of that name.
\<close>

lemma step_keeps_null:
  assumes "m_functions s name = None \<or> m_functions s name = Some 0"
    and "\<not> (opn = Bind_function name \<and> fst (bind_function os name s) \<noteq> 0)"
  shows "m_functions (step os opn s) name = None \<or> m_functions (step os opn s) name = Some 0"
proof (cases opn)
  case (Bind_library path)
  with assms(1) show ?thesis by (auto simp add: bind_library_def Let_def)
next
  case (Bind_function n)
  with assms show ?thesis by (auto simp add: bind_function_def Let_def split: if_splits)
next
  case (Execute n)
  with assms(1) show ?thesis
    by (auto simp add: execute_def subscript_def split: option.splits)
next
  case (Get_func n)
  with assms(1) show ?thesis
    by (auto simp add: get_func_def subscript_def split: option.splits)
qed

lemma run_keeps_null:
  "m_functions s name = None \<or> m_functions s name = Some 0 \<Longrightarrow> \<not> resolved_in name tr s \<Longrightarrow>
   m_functions (run tr s) name = None \<or> m_functions (run tr s) name = Some 0"
proof (induction tr arbitrary: s)
  case Nil
  then show ?case by simp
next
  case (Cons x tr)
  obtain os opn where x: "x = (os, opn)" by (cases x)
  from Cons.prems(2) x
  have here: "\<not> (opn = Bind_function name \<and> fst (bind_function os name s) \<noteq> 0)"
    and later: "\<not> resolved_in name tr (step os opn s)"
    by simp_all
  from Cons.prems(1) here
  have "m_functions (step os opn s) name = None \<or> m_functions (step os opn s) name = Some 0"
    by (rule step_keeps_null)
  from Cons.IH [OF this later] x show ?case by simp
qed

lemma execute_null_entry:
  assumes "m_functions s name = None \<or> m_functions s name = Some 0"
  shows "fst (execute call dflt name args s) = Not_called dflt
       \<and> m_error (snd (execute call dflt name args s))
           = Some ''attempted to execute function that is not bound!''"
  using assms by (auto simp add: execute_def subscript_def)

text \<open>
  C1. Take any run of operations from a fresh handle in which no \<open>bind_function\<close> of
  \<open>name\<close> returned a pointer other than null. Then \<open>execute\<close> of \<open>name\<close>, at any signature
  (any \<open>call\<close>, \<open>dflt\<close> and \<open>args\<close>), takes the guarded branch: it returns \<open>T()\<close> without
  calling through any address, and the error slot holds the not-bound message. And in no
  state at all does \<open>execute\<close> call through the null pointer.
\<close>

theorem execute_unresolved_returns_default:
  assumes "\<not> resolved_in name tr new_plugin"
  shows "fst (execute call dflt name args (run tr new_plugin)) = Not_called dflt
       \<and> error (snd (execute call dflt name args (run tr new_plugin)))
           = Some ''attempted to execute function that is not bound!''
       \<and> fst (execute call dflt name' args s') \<noteq> Called 0 r"
proof -
  have "m_functions new_plugin name = None \<or> m_functions new_plugin name = Some 0"
    by (simp add: new_plugin_def)
  from run_keeps_null [OF this assms]
  have "fst (execute call dflt name args (run tr new_plugin)) = Not_called dflt
      \<and> m_error (snd (execute call dflt name args (run tr new_plugin)))
          = Some ''attempted to execute function that is not bound!''"
    by (rule execute_null_entry)
  moreover have "fst (execute call dflt name' args s') \<noteq> Called 0 r"
    by (simp add: execute_def subscript_def split: option.split)
  ultimately show ?thesis by (simp add: error_def)
qed

theorem execute_unresolved_returns_default_witness:
  "\<not> resolved_in ''missing_fn''
       [(example_os, Bind_library ''libexample.so''), (example_os, Bind_function ''add''),
        (example_os, Bind_function ''missing_fn''), (example_os, Get_func ''missing_fn'')]
       new_plugin
   \<and> fst (execute (\<lambda>f (x::int). x + 1) 0 ''missing_fn'' 41
        (run [(example_os, Bind_library ''libexample.so''), (example_os, Bind_function ''add''),
              (example_os, Bind_function ''missing_fn''), (example_os, Get_func ''missing_fn'')]
           new_plugin)) = Not_called 0
   \<and> error (snd (execute (\<lambda>f (x::int). x + 1) 0 ''missing_fn'' 41
        (run [(example_os, Bind_library ''libexample.so''), (example_os, Bind_function ''add''),
              (example_os, Bind_function ''missing_fn''), (example_os, Get_func ''missing_fn'')]
           new_plugin))) = Some ''attempted to execute function that is not bound!''"
proof -
  have never: "\<not> resolved_in ''missing_fn''
       [(example_os, Bind_library ''libexample.so''), (example_os, Bind_function ''add''),
        (example_os, Bind_function ''missing_fn''), (example_os, Get_func ''missing_fn'')]
       new_plugin"
    by (simp add: bind_library_def bind_function_def get_func_def subscript_def new_plugin_def
        example_os_def)
  from execute_unresolved_returns_default [OF never, of "\<lambda>f (x::int). x + 1" 0 41] never
  show ?thesis by simp
qed


subsection \<open>The batch of names given to the constructor\<close>

text \<open>
  The loop of the constructor has no exit: it calls \<open>bind_function\<close> on every name. With a
  handle \<open>h\<close> held, the map gains every name of the batch that \<open>dlsym\<close> finds, \<open>bound\<close>
  survives exactly when none fails, and when the last name of the batch fails the error slot
  ends with the diagnostic of that call.
\<close>

lemma bind_functions_lib: "m_lib (bind_functions os ns s) = m_lib s"
  by (induction ns arbitrary: s) (simp_all add: bind_function_lib)

lemma bind_functions_map:
  "m_lib s \<noteq> 0 \<Longrightarrow>
   m_functions (bind_functions os ns s) n =
     (if n \<in> set ns \<and> dlsym os (m_lib s) n \<noteq> 0 then Some (dlsym os (m_lib s) n)
      else m_functions s n)"
proof (induction ns arbitrary: s)
  case Nil
  show ?case by simp
next
  case (Cons a ns)
  let ?s = "snd (bind_function os a s)"
  have lib: "m_lib ?s = m_lib s" by (rule bind_function_lib)
  with Cons.prems have held: "m_lib ?s \<noteq> 0" by simp
  have one: "m_functions ?s n =
      (if n = a \<and> dlsym os (m_lib s) a \<noteq> 0 then Some (dlsym os (m_lib s) a)
       else m_functions s n)"
    using Cons.prems by (simp add: bind_function_def Let_def)
  from Cons.IH [OF held] lib one show ?case by auto
qed

lemma bind_functions_bound:
  "m_lib s \<noteq> 0 \<Longrightarrow>
   m_bound (bind_functions os ns s) = (m_bound s \<and> filter (\<lambda>n. dlsym os (m_lib s) n = 0) ns = [])"
proof (induction ns arbitrary: s)
  case Nil
  show ?case by simp
next
  case (Cons a ns)
  let ?s = "snd (bind_function os a s)"
  have lib: "m_lib ?s = m_lib s" by (rule bind_function_lib)
  with Cons.prems have held: "m_lib ?s \<noteq> 0" by simp
  have one: "m_bound ?s = (m_bound s \<and> dlsym os (m_lib s) a \<noteq> 0)"
    using Cons.prems by (simp add: bind_function_def Let_def)
  from Cons.IH [OF held] lib one show ?case by auto
qed

lemma bind_functions_error_last:
  "m_lib s \<noteq> 0 \<Longrightarrow> ns \<noteq> [] \<Longrightarrow> dlsym os (m_lib s) (last ns) = 0 \<Longrightarrow>
   m_error (bind_functions os ns s) = dlerror_sym os (m_lib s) (last ns)"
proof (induction ns arbitrary: s)
  case Nil
  then show ?case by simp
next
  case (Cons a ns)
  let ?s = "snd (bind_function os a s)"
  have lib: "m_lib ?s = m_lib s" by (rule bind_function_lib)
  show ?case
  proof (cases "ns = []")
    case True
    with Cons.prems show ?thesis by (simp add: bind_function_def Let_def)
  next
    case False
    with Cons.prems lib have "m_lib ?s \<noteq> 0" and "dlsym os (m_lib ?s) (last ns) = 0"
      by simp_all
    from Cons.IH [OF this(1) False this(2)] lib False show ?thesis by simp
  qed
qed

text \<open>
  The batch is not fail-fast. With \<open>missing_fn\<close> before \<open>add\<close>, the first resolution fails
  and \<open>add\<close> is in the map all the same, so it was asked for after the failure; with two
  missing names the error slot holds the diagnostic of the second, not of the first.
\<close>

theorem Plugin_batch_binds_every_name_counterexample:
  "fst (bind_function example_os ''missing_fn''
          (bind_library example_os ''libexample.so'' new_plugin)) = 0
   \<and> m_functions (Plugin example_os ''libexample.so'' [''missing_fn'', ''add'']) ''add'' = Some 7
   \<and> dlerror_sym example_os 1 ''missing_a'' = Some ''undefined symbol: missing_a''
   \<and> error (Plugin example_os ''libexample.so'' [''missing_a'', ''missing_b''])
       = Some ''undefined symbol: missing_b''"
  by (simp add: Plugin_def bind_library_def bind_function_def new_plugin_def example_os_def
      error_def)

text \<open>
  C2, as the code has it. For a path the loader maps and a batch in which some name fails:
  the handle is held, \<open>bound\<close> is false, and the names in the map are exactly the names of
  the batch that the image exports, each with its address, whether they stand before or
  after a failing one. When the last name of the batch is a failing one, the error slot holds
  what \<open>dlerror\<close> reports for that last call, not for the first failure.
\<close>

theorem Plugin_batch_binds_every_name:
  assumes "dlopen os path \<noteq> 0"
    and "filter (\<lambda>n. dlsym os (dlopen os path) n = 0) names \<noteq> []"
  shows "is_lib_bound (Plugin os path names)
       \<and> \<not> bound (Plugin os path names)
       \<and> (\<forall>n. is_func_bound n (Plugin os path names) =
                (n \<in> set names \<and> dlsym os (dlopen os path) n \<noteq> 0))
       \<and> (\<forall>n \<in> set names. dlsym os (dlopen os path) n \<noteq> 0 \<longrightarrow>
                m_functions (Plugin os path names) n = Some (dlsym os (dlopen os path) n))
       \<and> (dlsym os (dlopen os path) (last names) = 0 \<longrightarrow>
            error (Plugin os path names) = dlerror_sym os (dlopen os path) (last names))"
proof -
  let ?s = "bind_library os path new_plugin"
  from assms(1) have lib: "m_lib ?s = dlopen os path" and held: "m_lib ?s \<noteq> 0"
    and empty: "m_functions ?s = Map.empty"
    by (simp_all add: bind_library_def new_plugin_def Let_def)
  from held have P: "Plugin os path names = bind_functions os names ?s"
    by (simp add: Plugin_def Let_def)
  have "m_lib (Plugin os path names) \<noteq> 0"
    using held by (simp add: P bind_functions_lib)
  moreover have "\<not> m_bound (Plugin os path names)"
    using assms(2) by (simp add: P bind_functions_bound [OF held] lib)
  moreover have "m_error (Plugin os path names) = dlerror_sym os (dlopen os path) (last names)"
    if "dlsym os (dlopen os path) (last names) = 0"
  proof -
    from assms(2) have "names \<noteq> []" by auto
    moreover from that lib have "dlsym os (m_lib ?s) (last names) = 0" by simp
    ultimately show ?thesis
      using bind_functions_error_last [OF held, of names os] by (simp add: P lib)
  qed
  moreover have "m_functions (Plugin os path names) n =
      (if n \<in> set names \<and> dlsym os (dlopen os path) n \<noteq> 0
       then Some (dlsym os (dlopen os path) n) else None)" for n
    by (simp add: P bind_functions_map [OF held] lib empty)
  ultimately show ?thesis
    by (simp add: is_lib_bound_def bound_def error_def is_func_bound_def)
qed

theorem Plugin_batch_binds_every_name_witness:
  "dlopen example_os ''libexample.so'' \<noteq> 0
   \<and> filter (\<lambda>n. dlsym example_os (dlopen example_os ''libexample.so'') n = 0)
        [''missing_a'', ''add'', ''missing_b''] = [''missing_a'', ''missing_b'']
   \<and> is_lib_bound (Plugin example_os ''libexample.so'' [''missing_a'', ''add'', ''missing_b''])
   \<and> \<not> bound (Plugin example_os ''libexample.so'' [''missing_a'', ''add'', ''missing_b''])
   \<and> error (Plugin example_os ''libexample.so'' [''missing_a'', ''add'', ''missing_b''])
       = Some ''undefined symbol: missing_b''
   \<and> is_func_bound ''add''
       (Plugin example_os ''libexample.so'' [''missing_a'', ''add'', ''missing_b''])
   \<and> \<not> is_func_bound ''missing_a''
       (Plugin example_os ''libexample.so'' [''missing_a'', ''add'', ''missing_b''])
   \<and> m_functions (Plugin example_os ''libexample.so'' [''missing_a'', ''add'', ''missing_b''])
       ''add'' = Some 7"
proof -
  let ?names = "[''missing_a'', ''add'', ''missing_b'']"
  have loadable: "dlopen example_os ''libexample.so'' \<noteq> 0"
    by (simp add: example_os_def)
  have failing: "filter (\<lambda>n. dlsym example_os (dlopen example_os ''libexample.so'') n = 0)
      ?names = [''missing_a'', ''missing_b'']"
    by (simp add: example_os_def)
  then have some: "filter (\<lambda>n. dlsym example_os (dlopen example_os ''libexample.so'') n = 0)
      ?names \<noteq> []"
    by simp
  have os: "dlsym example_os (dlopen example_os ''libexample.so'') ''add'' = 7"
    "dlsym example_os (dlopen example_os ''libexample.so'') ''missing_a'' = 0"
    "dlsym example_os (dlopen example_os ''libexample.so'') ''missing_b'' = 0"
    "dlerror_sym example_os (dlopen example_os ''libexample.so'') ''missing_b''
       = Some ''undefined symbol: missing_b''"
    by (simp_all add: example_os_def)
  from Plugin_batch_binds_every_name [OF loadable some] loadable failing os
  show ?thesis by simp
qed

subsection \<open>The error slot after a successful load\<close>

text \<open>
  A successful load does not empty the error slot. A \<open>bind_function\<close> on the fresh handle
  fails at its guard and writes the message of the class, a string literal; the load that
  follows succeeds, and the message is still there.
\<close>

theorem bind_library_keeps_old_error_counterexample:
  "dlopen example_os ''libexample.so'' = 1
   \<and> is_lib_bound (bind_library example_os ''libexample.so''
        (snd (bind_function example_os ''add'' new_plugin)))
   \<and> error (bind_library example_os ''libexample.so''
        (snd (bind_function example_os ''add'' new_plugin)))
       = Some ''lib has not been bound! cannot continue with binding function!''"
  by (simp add: bind_library_def bind_function_def new_plugin_def example_os_def
      is_lib_bound_def error_def)

text \<open>
  C6, as the code has it. A \<open>bind_library\<close> that succeeds on a handle holding no library
  makes \<open>is_lib_bound\<close> and \<open>bound\<close> true and does not assign the error slot. The slot is
  null after the load when it was null before, as on a fresh handle. When the operation just
  before the load failed at one of the guards of the class, a \<open>bind_function\<close> with no
  library held or an \<open>execute\<close> that returned \<open>T()\<close> without calling, the slot still holds the
  message of that guard after the load.
\<close>

theorem bind_library_success_leaves_error:
  assumes "\<not> is_lib_bound s" and "dlopen os path \<noteq> 0"
  shows "is_lib_bound (bind_library os path s)
       \<and> bound (bind_library os path s)
       \<and> (error s = None \<longrightarrow> error (bind_library os path s) = None)
       \<and> error (bind_library os path new_plugin) = None
       \<and> is_lib_bound (bind_library os path (snd (bind_function os0 name s)))
       \<and> error (bind_library os path (snd (bind_function os0 name s)))
           = Some ''lib has not been bound! cannot continue with binding function!''
       \<and> is_lib_bound (bind_library os path (snd (execute call dflt name args s)))
       \<and> (fst (execute call dflt name args s) = Not_called dflt \<longrightarrow>
            error (bind_library os path (snd (execute call dflt name args s)))
              = Some ''attempted to execute function that is not bound!'')"
proof -
  from assms have fresh: "is_lib_bound (bind_library os path s)
      \<and> bound (bind_library os path s)
      \<and> (error s = None \<longrightarrow> error (bind_library os path s) = None)
      \<and> error (bind_library os path new_plugin) = None"
    by (simp add: bind_library_def is_lib_bound_def bound_def error_def new_plugin_def Let_def)
  from assms have guard: "is_lib_bound (bind_library os path (snd (bind_function os0 name s)))
      \<and> error (bind_library os path (snd (bind_function os0 name s)))
          = Some ''lib has not been bound! cannot continue with binding function!''"
    by (simp add: bind_library_def bind_function_def is_lib_bound_def error_def Let_def)
  from assms have "m_lib (snd (execute call dflt name args s)) = 0"
    by (simp add: execute_lib is_lib_bound_def)
  with assms(2)
  have held: "is_lib_bound (bind_library os path (snd (execute call dflt name args s)))"
    and kept: "error (bind_library os path (snd (execute call dflt name args s)))
        = m_error (snd (execute call dflt name args s))"
    by (simp_all add: bind_library_def is_lib_bound_def error_def Let_def)
  have "m_error (snd (execute call dflt name args s))
      = Some ''attempted to execute function that is not bound!''"
    if "fst (execute call dflt name args s) = Not_called dflt"
    using that by (simp add: execute_def split_beta Let_def split: if_splits)
  with fresh guard held kept show ?thesis by simp
qed

theorem bind_library_success_leaves_error_witness:
  "\<not> is_lib_bound new_plugin
   \<and> dlopen example_os ''libexample.so'' \<noteq> 0
   \<and> error new_plugin = None
   \<and> is_lib_bound (bind_library example_os ''libexample.so'' new_plugin)
   \<and> bound (bind_library example_os ''libexample.so'' new_plugin)
   \<and> error (bind_library example_os ''libexample.so'' new_plugin) = None
   \<and> error (bind_library example_os ''libexample.so''
        (snd (bind_function example_os ''add'' new_plugin)))
       = Some ''lib has not been bound! cannot continue with binding function!''
   \<and> fst (execute (\<lambda>f (x::int). x + 1) 0 ''add'' 41 new_plugin) = Not_called 0
   \<and> error (bind_library example_os ''libexample.so''
        (snd (execute (\<lambda>f (x::int). x + 1) 0 ''add'' 41 new_plugin)))
       = Some ''attempted to execute function that is not bound!''"
proof -
  have unloaded: "\<not> is_lib_bound new_plugin"
    by (simp add: is_lib_bound_def new_plugin_def)
  have loadable: "dlopen example_os ''libexample.so'' \<noteq> 0"
    by (simp add: example_os_def)
  have empty: "error new_plugin = None"
    by (simp add: error_def new_plugin_def)
  have guarded: "fst (execute (\<lambda>f (x::int). x + 1) 0 ''add'' 41 new_plugin) = Not_called 0"
    by (simp add: execute_def subscript_def new_plugin_def)
  from bind_library_success_leaves_error [OF unloaded loadable,
      of example_os "''add''" "\<lambda>f (x::int). x + 1" 0 41]
    unloaded loadable empty guarded
  show ?thesis by simp
qed

subsection \<open>After a failed load\<close>

text \<open>
  A failed load is not the end of the handle: a second \<open>bind_library\<close>, with a path the
  loader maps, succeeds on it.
\<close>

theorem load_failed_not_terminal_counterexample:
  "dlopen example_os ''nosuch.so'' = 0
   \<and> \<not> is_lib_bound (bind_library example_os ''nosuch.so'' new_plugin)
   \<and> is_lib_bound (bind_library example_os ''libexample.so''
        (bind_library example_os ''nosuch.so'' new_plugin))
   \<and> bound (bind_library example_os ''libexample.so''
        (bind_library example_os ''nosuch.so'' new_plugin))"
  by (simp add: bind_library_def new_plugin_def example_os_def is_lib_bound_def bound_def)

text \<open>
  C5, as the code has it. A failed load leaves the handle without a library and \<open>bound\<close>
  false. After any run of operations that follows, the handle holds a library exactly when
  the run has a \<open>bind_library\<close> of a path the loader maps at that moment.
\<close>

theorem load_failed_not_terminal:
  assumes "\<not> is_lib_bound s0" and "dlopen os path = 0"
  shows "\<not> is_lib_bound (bind_library os path s0)
       \<and> \<not> bound (bind_library os path s0)
       \<and> is_lib_bound (run tr (bind_library os path s0)) = list_ex opens tr"
proof -
  let ?s = "bind_library os path s0"
  from assms have none: "m_lib ?s = 0" and unbound: "\<not> m_bound ?s"
    by (simp_all add: bind_library_def is_lib_bound_def Let_def)
  from none have "(m_lib (run tr ?s) \<noteq> 0) = list_ex opens tr" by (rule run_lib_none)
  with none unbound show ?thesis by (simp add: is_lib_bound_def bound_def)
qed

theorem load_failed_not_terminal_witness:
  "\<not> is_lib_bound new_plugin
   \<and> dlopen example_os ''nosuch.so'' = 0
   \<and> \<not> is_lib_bound (bind_library example_os ''nosuch.so'' new_plugin)
   \<and> \<not> is_lib_bound (run [(example_os, Bind_function ''add''),
                           (example_os, Bind_library ''nosuch.so''),
                           (example_os, Execute ''add'')]
          (bind_library example_os ''nosuch.so'' new_plugin))
   \<and> is_lib_bound (run [(example_os, Bind_function ''add''),
                         (example_os, Bind_library ''libexample.so''),
                         (example_os, Bind_function ''add'')]
          (bind_library example_os ''nosuch.so'' new_plugin))"
proof -
  have unloaded: "\<not> is_lib_bound new_plugin"
    by (simp add: is_lib_bound_def new_plugin_def)
  have fails: "dlopen example_os ''nosuch.so'' = 0"
    by (simp add: example_os_def)
  have never: "\<not> list_ex opens [(example_os, Bind_function ''add''),
      (example_os, Bind_library ''nosuch.so''), (example_os, Execute ''add'')]"
    by (simp add: example_os_def)
  have later: "list_ex opens [(example_os, Bind_function ''add''),
      (example_os, Bind_library ''libexample.so''), (example_os, Bind_function ''add'')]"
    by (simp add: example_os_def)
  from load_failed_not_terminal [OF unloaded fails,
      where tr = "[(example_os, Bind_function ''add''),
                   (example_os, Bind_library ''nosuch.so''), (example_os, Execute ''add'')]"]
    load_failed_not_terminal [OF unloaded fails,
      where tr = "[(example_os, Bind_function ''add''),
                   (example_os, Bind_library ''libexample.so''),
                   (example_os, Bind_function ''add'')]"]
    unloaded fails never later
  show ?thesis by blast
qed

end
